theory Spec2Isabelle
  imports Main
begin

section \<open>Values, exceptions and results\<close>

text \<open>
  The objects \<open>yaml.safe_load\<close> hands to the program. A mapping is kept as the list of
  its items in insertion order (the keys of a parsed mapping are pairwise different);
  \<open>YOther\<close> stands for the remaining scalars (floats, dates), which support neither
  \<open>in\<close>, nor subscripting, nor iteration.
\<close>

datatype yaml =
    YNull
  | YBool bool
  | YInt int
  | YOther string
  | YStr string
  | YSeq "yaml list"
  | YMap "(yaml \<times> yaml) list"

datatype exn = KeyError string | TypeError | OSError

text \<open>
  How a statement ends: normally with a value, with an exception that nothing catches,
  or with \<open>sys.exit(n)\<close>.
\<close>

datatype 'a result = Ok 'a | Raise exn | SysExit int

section \<open>The environment and the world\<close>

type_synonym path = "string list"
type_synonym mode = nat

definition o700 :: mode where "o700 = 7 * 64 + 0 * 8 + 0"
definition o600 :: mode where "o600 = 6 * 64 + 0 * 8 + 0"
definition o644 :: mode where "o644 = 6 * 64 + 4 * 8 + 4"
definition o666 :: mode where "o666 = 6 * 64 + 6 * 8 + 6"

datatype node = Dir mode | File string mode

datatype rsa_private_key =
  RSAPrivateKey (public_exponent: nat) (key_size: nat) (material: nat)

datatype rsa_public_key = RSAPublicKey rsa_private_key

datatype encoding = PEM | DER | OpenSSH
datatype private_format = PKCS8 | TraditionalOpenSSL | PrivateOpenSSH
datatype public_format = SubjectPublicKeyInfo | PKCS1 | PublicOpenSSH
datatype key_encryption = NoEncryption | BestAvailableEncryption string

datatype load_outcome =
    FileNotFoundError
  | YAMLError string
  | LoadRaises exn
  | Loaded yaml

text \<open>
  What the program takes from outside: the home directory, the outcome of opening a path
  and running \<open>yaml.safe_load\<close> on it, the text the built-in \<open>format\<close> gives for an
  object that is not a string, and the two serialisers of the cryptography library.
\<close>

record env =
  home :: path
  safe_load_file :: "string \<Rightarrow> load_outcome"
  format_object :: "yaml \<Rightarrow> string"
  private_bytes :: "rsa_private_key \<Rightarrow> encoding \<Rightarrow> private_format \<Rightarrow> key_encryption \<Rightarrow> string"
  public_bytes :: "rsa_public_key \<Rightarrow> encoding \<Rightarrow> public_format \<Rightarrow> string"

text \<open>
  The mutable world: the file system (a requested mode is the mode the node gets), the
  texts given to \<open>print\<close>, one entry per call, and the number of keys drawn so far from
  the random source.
\<close>

record world =
  fs :: "path \<rightharpoonup> node"
  stdout :: "string list"
  drawn :: nat

record ssh_key_manager =
  ssh_dir :: path
  config_file :: path

section \<open>Python and operating-system primitives\<close>

definition nl :: string where
  "nl = [CHR 0x0A]"

definition quote :: string where
  "quote = [CHR 0x27]"

fun str_contains :: "string \<Rightarrow> string \<Rightarrow> bool" where
  "str_contains [] k = (k = [])"
| "str_contains (c # cs) k = (take (length k) (c # cs) = k \<or> str_contains cs k)"

text \<open>\<open>k in v\<close> for a string \<open>k\<close>.\<close>

fun str_in :: "string \<Rightarrow> yaml \<Rightarrow> bool result" where
  "str_in k (YMap kvs) = Ok (YStr k \<in> set (map fst kvs))"
| "str_in k (YSeq xs) = Ok (YStr k \<in> set xs)"
| "str_in k (YStr s) = Ok (str_contains s k)"
| "str_in k YNull = Raise TypeError"
| "str_in k (YBool b) = Raise TypeError"
| "str_in k (YInt i) = Raise TypeError"
| "str_in k (YOther s) = Raise TypeError"

text \<open>\<open>v[k]\<close> for a string \<open>k\<close>.\<close>

fun py_getitem :: "yaml \<Rightarrow> string \<Rightarrow> yaml result" where
  "py_getitem (YMap kvs) k =
     (case map_of kvs (YStr k) of None \<Rightarrow> Raise (KeyError k) | Some v \<Rightarrow> Ok v)"
| "py_getitem v k = Raise TypeError"

text \<open>The elements a \<open>for\<close> loop over \<open>v\<close> visits.\<close>

fun py_iter :: "yaml \<Rightarrow> yaml list result" where
  "py_iter (YSeq xs) = Ok xs"
| "py_iter (YMap kvs) = Ok (map fst kvs)"
| "py_iter (YStr s) = Ok (map (\<lambda>c. YStr [c]) s)"
| "py_iter v = Raise TypeError"

text \<open>An interpolated \<open>{v}\<close> of an f-string.\<close>

definition py_format :: "env \<Rightarrow> yaml \<Rightarrow> string" where
  "py_format e v = (case v of YStr s \<Rightarrow> s | _ \<Rightarrow> format_object e v)"

text \<open>\<open>all(k in v for k in ks)\<close>: stops at the first key that is not in \<open>v\<close>.\<close>

fun all_in :: "string list \<Rightarrow> yaml \<Rightarrow> bool result" where
  "all_in [] v = Ok True"
| "all_in (k # ks) v =
     (case str_in k v of
        Ok True \<Rightarrow> all_in ks v
      | Ok False \<Rightarrow> Ok False
      | Raise x \<Rightarrow> Raise x
      | SysExit n \<Rightarrow> SysExit n)"

text \<open>\<open>strip()\<close>, on the white space of ASCII.\<close>

definition is_space :: "char \<Rightarrow> bool" where
  "is_space c = ((of_char c :: nat) \<in> {9, 10, 11, 12, 13, 28, 29, 30, 31, 32})"

definition strip :: "string \<Rightarrow> string" where
  "strip s = rev (dropWhile is_space (rev (dropWhile is_space s)))"

definition print :: "string \<Rightarrow> world \<Rightarrow> world" where
  "print s w = w\<lparr>stdout := stdout w @ [s]\<rparr>"

text \<open>
  \<open>p / s\<close> of \<open>pathlib\<close>. A path is the list of its components from the root; the
  joined name is taken as one component (the names the program joins hold no \<open>/\<close>).
\<close>

definition joinpath :: "path \<Rightarrow> string \<Rightarrow> path" where
  "joinpath p s = p @ [s]"

text \<open>
  Sequencing: the second statement runs only when the first ended normally; an exception
  or an exit passes through with the world as it was left.
\<close>

definition lift :: "'a result \<Rightarrow> world \<Rightarrow> 'a result \<times> world" where
  "lift r w = (r, w)"

definition and_then ::
  "'a result \<times> world \<Rightarrow> ('a \<Rightarrow> world \<Rightarrow> 'b result \<times> world) \<Rightarrow> 'b result \<times> world" where
  "and_then r f =
     (case r of
        (Ok a, w) \<Rightarrow> f a w
      | (Raise x, w) \<Rightarrow> (Raise x, w)
      | (SysExit k, w) \<Rightarrow> (SysExit k, w))"

text \<open>
  The file system calls. The root \<open>[]\<close> is a directory. A call fails with an
  \<open>OSError\<close> (\<open>FileExistsError\<close>, \<open>FileNotFoundError\<close>, \<open>IsADirectoryError\<close>,
  \<open>NotADirectoryError\<close>) where the kind of the node or of its parent forbids it; access
  rights are not checked, the process owns what it touches.
\<close>

definition exists :: "path \<Rightarrow> world \<Rightarrow> bool" where
  "exists p w = (p = [] \<or> fs w p \<noteq> None)"

definition is_dir :: "path \<Rightarrow> world \<Rightarrow> bool" where
  "is_dir p w = (case fs w p of Some (Dir m) \<Rightarrow> True | _ \<Rightarrow> p = [])"

definition mkdir :: "path \<Rightarrow> mode \<Rightarrow> world \<Rightarrow> unit result \<times> world" where
  "mkdir p m w =
     (if exists p w \<or> \<not> is_dir (butlast p) w then (Raise OSError, w)
      else (Ok (), w\<lparr>fs := (fs w)(p \<mapsto> Dir m)\<rparr>))"

definition chmod :: "path \<Rightarrow> mode \<Rightarrow> world \<Rightarrow> unit result \<times> world" where
  "chmod p m w =
     (case fs w p of
        None \<Rightarrow> (Raise OSError, w)
      | Some (Dir _) \<Rightarrow> (Ok (), w\<lparr>fs := (fs w)(p \<mapsto> Dir m)\<rparr>)
      | Some (File c _) \<Rightarrow> (Ok (), w\<lparr>fs := (fs w)(p \<mapsto> File c m)\<rparr>))"

text \<open>
  \<open>open(p, 'w')\<close>, \<open>write\<close>, close: an existing file keeps its mode, a new one is
  created with the mode \<open>open\<close> asks for.
\<close>

definition write_file :: "path \<Rightarrow> string \<Rightarrow> world \<Rightarrow> unit result \<times> world" where
  "write_file p c w =
     (if is_dir p w \<or> \<not> is_dir (butlast p) w then (Raise OSError, w)
      else case fs w p of
             Some (File _ m) \<Rightarrow> (Ok (), w\<lparr>fs := (fs w)(p \<mapsto> File c m)\<rparr>)
           | _ \<Rightarrow> (Ok (), w\<lparr>fs := (fs w)(p \<mapsto> File c o666)\<rparr>))"

definition read_file :: "path \<Rightarrow> world \<Rightarrow> string result \<times> world" where
  "read_file p w = (case fs w p of Some (File c _) \<Rightarrow> (Ok c, w) | _ \<Rightarrow> (Raise OSError, w))"

definition generate_private_key :: "nat \<Rightarrow> nat \<Rightarrow> world \<Rightarrow> rsa_private_key \<times> world" where
  "generate_private_key e bits w = (RSAPrivateKey e bits (drawn w), w\<lparr>drawn := Suc (drawn w)\<rparr>)"

definition public_key :: "rsa_private_key \<Rightarrow> rsa_public_key" where
  "public_key k = RSAPublicKey k"

section \<open>SSHKeyManager\<close>

definition ensure_ssh_directory :: "ssh_key_manager \<Rightarrow> world \<Rightarrow> unit result \<times> world" where
  "ensure_ssh_directory self w =
     (if \<not> exists (ssh_dir self) w then mkdir (ssh_dir self) o700 w
      else chmod (ssh_dir self) o700 w)"

definition init :: "env \<Rightarrow> world \<Rightarrow> ssh_key_manager result \<times> world" where
  "init e w =
     (let d = joinpath (home e) ''.ssh'';
          self = \<lparr>ssh_dir = d, config_file = joinpath d ''config''\<rparr>
      in and_then (ensure_ssh_directory self w) (\<lambda>u. lift (Ok self)))"

definition generate_key_pair ::
  "env \<Rightarrow> ssh_key_manager \<Rightarrow> yaml \<Rightarrow> yaml \<Rightarrow> world \<Rightarrow> path result \<times> world" where
  "generate_key_pair e self account_name email w =
     (let (private_key, w1) = generate_private_key 65537 4096 w;
          private_pem = private_bytes e private_key PEM PKCS8 NoEncryption;
          public_pem = public_bytes e (public_key private_key) OpenSSH PublicOpenSSH;
          private_key_path = joinpath (ssh_dir self) (''id_rsa_'' @ py_format e account_name);
          public_key_path =
            joinpath (ssh_dir self) (''id_rsa_'' @ py_format e account_name @ ''.pub'')
      in and_then (write_file private_key_path private_pem w1) (\<lambda>u w2.
         and_then (chmod private_key_path o600 w2) (\<lambda>u w3.
         and_then (write_file public_key_path public_pem w3) (\<lambda>u w4.
         and_then (chmod public_key_path o644 w4) (\<lambda>u.
         lift (Ok public_key_path))))))"

definition host_entry :: "string \<Rightarrow> string" where
  "host_entry n =
     nl @ ''Host github.com-'' @ n @ nl @
     ''    HostName github.com'' @ nl @
     ''    User git'' @ nl @
     ''    IdentityFile ~/.ssh/id_rsa_'' @ n @ nl @
     ''    IdentitiesOnly yes'' @ nl"

text \<open>
  The loop of \<open>update_ssh_config\<close> that builds \<open>config_lines\<close>; a record without
  \<open>name\<close> ends it with the exception of the subscript.
\<close>

fun config_lines :: "env \<Rightarrow> yaml list \<Rightarrow> string list result" where
  "config_lines e [] = Ok []"
| "config_lines e (account # accounts) =
     (case py_getitem account ''name'' of
        Ok n \<Rightarrow>
          (case config_lines e accounts of
             Ok ls \<Rightarrow> Ok (host_entry (py_format e n) # ls)
           | Raise x \<Rightarrow> Raise x
           | SysExit k \<Rightarrow> SysExit k)
      | Raise x \<Rightarrow> Raise x
      | SysExit k \<Rightarrow> SysExit k)"

definition update_ssh_config ::
  "env \<Rightarrow> ssh_key_manager \<Rightarrow> yaml \<Rightarrow> world \<Rightarrow> unit result \<times> world" where
  "update_ssh_config e self accounts w =
     and_then (lift (py_iter accounts) w) (\<lambda>items w.
     and_then (lift (config_lines e items) w) (\<lambda>ls w.
     and_then (write_file (config_file self) (concat ls) w) (\<lambda>u w.
     chmod (config_file self) o600 w)))"

text \<open>The body of the first loop of \<open>process_accounts\<close>, for one element.\<close>

definition process_account ::
  "env \<Rightarrow> ssh_key_manager \<Rightarrow> yaml \<Rightarrow> world \<Rightarrow> unit result \<times> world" where
  "process_account e self account w =
     and_then (lift (all_in [''name'', ''email''] account) w) (\<lambda>present w.
       if \<not> present then
         (Ok (),
          print (''Error: Account configuration missing required fields: ''
                   @ py_format e account) w)
       else
         and_then (lift (py_getitem account ''name'') w) (\<lambda>n w.
         and_then (lift (py_getitem account ''email'')
                     (print (nl @ ''Processing account: '' @ py_format e n) w)) (\<lambda>email w.
         and_then (generate_key_pair e self n email w) (\<lambda>public_key_path w.
         and_then (read_file public_key_path
                     (print (nl @ ''Add this public key to your GitHub account:'')
                        (print (''Generated SSH key pair for '' @ py_format e n) w))) (\<lambda>text w.
         (Ok (), print (strip text) w))))))"

fun process_each ::
  "env \<Rightarrow> ssh_key_manager \<Rightarrow> yaml list \<Rightarrow> world \<Rightarrow> unit result \<times> world" where
  "process_each e self [] w = (Ok (), w)"
| "process_each e self (account # accounts) w =
     (case process_account e self account w of
        (Ok u, w') \<Rightarrow> process_each e self accounts w'
      | (Raise x, w') \<Rightarrow> (Raise x, w')
      | (SysExit k, w') \<Rightarrow> (SysExit k, w'))"

text \<open>The last loop of \<open>process_accounts\<close>: one clone URL for each element.\<close>

definition clone_url :: "string \<Rightarrow> string" where
  "clone_url n = ''git@github.com-'' @ n @ '':username/repository.git''"

fun print_urls :: "env \<Rightarrow> yaml list \<Rightarrow> world \<Rightarrow> unit result \<times> world" where
  "print_urls e [] w = (Ok (), w)"
| "print_urls e (account # accounts) w =
     (case py_getitem account ''name'' of
        Ok n \<Rightarrow> print_urls e accounts (print (clone_url (py_format e n)) w)
      | Raise x \<Rightarrow> (Raise x, w)
      | SysExit k \<Rightarrow> (SysExit k, w))"

definition not_found_message :: "string \<Rightarrow> string" where
  "not_found_message config_path =
     ''Error: Config file '' @ quote @ config_path @ quote @ '' not found.''"

definition yaml_error_message :: "string \<Rightarrow> string" where
  "yaml_error_message msg = ''Error parsing YAML config: '' @ msg"

definition no_accounts_message :: string where
  "no_accounts_message =
     ''Error: No '' @ quote @ ''accounts'' @ quote @ '' section found in config file.''"

definition process_accounts ::
  "env \<Rightarrow> ssh_key_manager \<Rightarrow> string \<Rightarrow> world \<Rightarrow> unit result \<times> world" where
  "process_accounts e self config_path w =
     (case safe_load_file e config_path of
        FileNotFoundError \<Rightarrow> (SysExit 1, print (not_found_message config_path) w)
      | YAMLError msg \<Rightarrow> (SysExit 1, print (yaml_error_message msg) w)
      | LoadRaises x \<Rightarrow> (Raise x, w)
      | Loaded config \<Rightarrow>
          and_then (lift (str_in ''accounts'' config) w) (\<lambda>present w.
            if \<not> present then (SysExit 1, print no_accounts_message w)
            else
              and_then (lift (py_getitem config ''accounts'') w) (\<lambda>accounts w.
              and_then (lift (py_iter accounts) w) (\<lambda>items w.
              and_then (process_each e self items w) (\<lambda>u w.
              and_then (update_ssh_config e self accounts w) (\<lambda>u w.
              print_urls e items
                (print (nl @ ''To use different GitHub accounts, use these URLs for your repositories:'')
                   (print (nl @ ''SSH config has been updated successfully!'') w))))))))"

definition main :: "env \<Rightarrow> world \<Rightarrow> unit result \<times> world" where
  "main e w =
     and_then (init e w) (\<lambda>manager w. process_accounts e manager ''config.yaml'' w)"


section \<open>Notions of the specification\<close>

text \<open>A field of an account record; anything that is not a mapping has none.\<close>

fun record_field :: "string \<Rightarrow> yaml \<Rightarrow> yaml option" where
  "record_field k (YMap kvs) = map_of kvs (YStr k)"
| "record_field k v = None"

definition is_record :: "yaml \<Rightarrow> bool" where
  "is_record v = (case v of YMap kvs \<Rightarrow> True | _ \<Rightarrow> False)"

text \<open>The text an f-string shows for the field \<open>name\<close> of a record that has one.\<close>

definition name_text :: "env \<Rightarrow> yaml \<Rightarrow> string" where
  "name_text e a = (case record_field ''name'' a of Some v \<Rightarrow> py_format e v | None \<Rightarrow> [])"

text \<open>A record the first loop does not skip: it has both required fields.\<close>

definition has_required_fields :: "yaml \<Rightarrow> bool" where
  "has_required_fields a = (record_field ''name'' a \<noteq> None \<and> record_field ''email'' a \<noteq> None)"


text \<open>
  The values on which \<open>in\<close> raises: \<open>None\<close>, booleans, numbers and the other scalars
  that are not strings.
\<close>

fun no_container :: "yaml \<Rightarrow> bool" where
  "no_container (YStr s) = False"
| "no_container (YSeq xs) = False"
| "no_container (YMap kvs) = False"
| "no_container v = True"

text \<open>
  The key directory can take the program's files: it is a directory and none of its
  entries is one.
\<close>

definition key_dir_ready :: "ssh_key_manager \<Rightarrow> world \<Rightarrow> bool" where
  "key_dir_ready self w =
     (is_dir (ssh_dir self) w \<and> (\<forall>s. \<not> is_dir (joinpath (ssh_dir self) s) w))"

definition private_key_path :: "env \<Rightarrow> ssh_key_manager \<Rightarrow> yaml \<Rightarrow> path" where
  "private_key_path e self a = ssh_dir self @ [''id_rsa_'' @ name_text e a]"

definition public_key_path :: "env \<Rightarrow> ssh_key_manager \<Rightarrow> yaml \<Rightarrow> path" where
  "public_key_path e self a = ssh_dir self @ [''id_rsa_'' @ name_text e a @ ''.pub'']"

text \<open>The stanza of the specification's template, line by line.\<close>

definition spec_stanza :: "string \<Rightarrow> string" where
  "spec_stanza n =
     concat (map (\<lambda>l. l @ nl)
       [''Host service.com-'' @ n,
        ''    HostName service.com'',
        ''    User git'',
        ''    IdentityFile ~/.ssh/id_rsa_'' @ n,
        ''    IdentitiesOnly yes''])"

text \<open>The stanza with the host the program names, after an empty line.\<close>

definition github_stanza :: "string \<Rightarrow> string" where
  "github_stanza n =
     concat (map (\<lambda>l. l @ nl)
       [[],
        ''Host github.com-'' @ n,
        ''    HostName github.com'',
        ''    User git'',
        ''    IdentityFile ~/.ssh/id_rsa_'' @ n,
        ''    IdentitiesOnly yes''])"




text \<open>The line the first loop prints for a record it skips.\<close>

definition skipped_message :: "env \<Rightarrow> yaml \<Rightarrow> string" where
  "skipped_message e a =
     ''Error: Account configuration missing required fields: '' @ py_format e a"

text \<open>
  The world after the first loop has dealt with one record, when no call fails: a skipped
  record leaves one line on the output; a complete one leaves its two key files, one key
  drawn, and four lines.
\<close>

definition account_effect :: "env \<Rightarrow> ssh_key_manager \<Rightarrow> yaml \<Rightarrow> world \<Rightarrow> world" where
  "account_effect e self a w =
     (if has_required_fields a then
        (let k = RSAPrivateKey 65537 4096 (drawn w);
             public_text = public_bytes e (RSAPublicKey k) OpenSSH PublicOpenSSH
         in w\<lparr>fs := (fs w)
                  (private_key_path e self a \<mapsto>
                     File (private_bytes e k PEM PKCS8 NoEncryption) o600,
                   public_key_path e self a \<mapsto> File public_text o644),
               stdout := stdout w @
                  [nl @ ''Processing account: '' @ name_text e a,
                   ''Generated SSH key pair for '' @ name_text e a,
                   nl @ ''Add this public key to your GitHub account:'',
                   strip public_text],
               drawn := Suc (drawn w)\<rparr>)
      else w\<lparr>stdout := stdout w @ [skipped_message e a]\<rparr>)"

definition accounts_effect :: "env \<Rightarrow> ssh_key_manager \<Rightarrow> yaml list \<Rightarrow> world \<Rightarrow> world" where
  "accounts_effect e self items w = foldl (\<lambda>w a. account_effect e self a w) w items"


text \<open>
  For the comparison of two runs. \<open>keeps a a'\<close>: going from \<open>a\<close> to \<open>a'\<close> no node
  disappeared and none changed between directory and file. \<open>view\<close>: what is compared
  at a path, the kind and mode of the node and, at the configuration path, the node itself.
  \<open>alike\<close>: two statements, run from \<open>a\<close> and from \<open>b\<close>, ended the same way, kept
  the nodes, and every path either looks the same in both worlds they left or was left
  alone by both.
\<close>

definition keeps :: "world \<Rightarrow> world \<Rightarrow> bool" where
  "keeps a a' = (\<forall>p. is_dir p a' = is_dir p a \<and> (fs a p \<noteq> None \<longrightarrow> fs a' p \<noteq> None))"




section \<open>A sample environment\<close>

definition sample_env :: "load_outcome \<Rightarrow> env" where
  "sample_env src =
     \<lparr>home = [''home'', ''dev''],
      safe_load_file = (\<lambda>p. if p = ''config.yaml'' then src else FileNotFoundError),
      format_object = (\<lambda>v. ''<object>''),
      private_bytes = (\<lambda>k enc fmt c. ''PRIVATE KEY '' @ replicate (material k) CHR ''*''),
      public_bytes = (\<lambda>k enc fmt. ''ssh-rsa AAAA'' @ nl)\<rparr>"

definition sample_manager :: ssh_key_manager where
  "sample_manager =
     \<lparr>ssh_dir = [''home'', ''dev'', ''.ssh''],
      config_file = [''home'', ''dev'', ''.ssh'', ''config'']\<rparr>"

text \<open>A home directory without \<open>.ssh\<close>, and one where \<open>.ssh\<close> is there.\<close>

definition fresh_world :: world where
  "fresh_world =
     \<lparr>fs = [[''home'', ''dev''] \<mapsto> Dir (7 * 64 + 5 * 8 + 5)], stdout = [], drawn = 0\<rparr>"

definition sample_world :: world where
  "sample_world =
     \<lparr>fs = [[''home'', ''dev''] \<mapsto> Dir (7 * 64 + 5 * 8 + 5),
            [''home'', ''dev'', ''.ssh''] \<mapsto> Dir (7 * 64 + 5 * 8 + 5)],
      stdout = [], drawn = 0\<rparr>"

text \<open>
  An input with one well-formed account and one record without \<open>name\<close>, and one with a
  well-formed account and one record without \<open>email\<close>.
\<close>

definition work_account :: yaml where
  "work_account = YMap [(YStr ''name'', YStr ''work''), (YStr ''email'', YStr ''me@work.example'')]"

definition nameless_config :: yaml where
  "nameless_config =
     YMap [(YStr ''accounts'',
            YSeq [work_account, YMap [(YStr ''email'', YStr ''other@home.example'')]])]"


text \<open>The two accounts of the specification's example.\<close>

definition two_accounts :: "yaml list" where
  "two_accounts =
     [YMap [(YStr ''name'', YStr ''work'')], YMap [(YStr ''name'', YStr ''personal'')]]"

section \<open>Evaluation and sequencing lemmas\<close>

lemmas step_defs = and_then_def lift_def print_def

lemmas sample_defs = sample_env_def sample_manager_def sample_world_def fresh_world_def

lemma str_in_no_container: "no_container v \<Longrightarrow> str_in k v = Raise TypeError"
  by (cases v) simp_all

lemma and_then_Ok [simp]: "and_then (Ok a, w) f = f a w"
  by (simp add: and_then_def)

lemma and_then_Raise [simp]: "and_then (Raise x, w) f = (Raise x, w)"
  by (simp add: and_then_def)

lemma and_then_SysExit [simp]: "and_then (SysExit k, w) f = (SysExit k, w)"
  by (simp add: and_then_def)

lemma lift_apply [simp]: "lift r w = (r, w)"
  by (simp add: lift_def)

lemma ready_print [simp]: "key_dir_ready self (print s w) = key_dir_ready self w"
  by (simp add: key_dir_ready_def is_dir_def print_def)

lemma ready_stdout [simp]: "key_dir_ready self (w\<lparr>stdout := x\<rparr>) = key_dir_ready self w"
  by (simp add: key_dir_ready_def is_dir_def)

lemma ready_drawn [simp]: "key_dir_ready self (w\<lparr>drawn := n\<rparr>) = key_dir_ready self w"
  by (simp add: key_dir_ready_def is_dir_def)

lemma ready_put_file:
  "key_dir_ready self w \<Longrightarrow>
   key_dir_ready self (w\<lparr>fs := (fs w)(ssh_dir self @ [s] \<mapsto> File c m)\<rparr>)"
  by (auto simp: key_dir_ready_def is_dir_def joinpath_def split: option.splits node.splits)

lemma store_file:
  assumes "key_dir_ready self w"
  shows "and_then (write_file (ssh_dir self @ [s]) c w) (\<lambda>u. chmod (ssh_dir self @ [s]) m)
           = (Ok (), w\<lparr>fs := (fs w)(ssh_dir self @ [s] \<mapsto> File c m)\<rparr>)"
proof -
  have d: "is_dir (ssh_dir self) w" and n: "\<not> is_dir (ssh_dir self @ [s]) w"
    using assms by (simp_all add: key_dir_ready_def joinpath_def)
  show ?thesis
    using d n
    by (auto simp: write_file_def chmod_def and_then_def is_dir_def
             split: option.splits node.splits)
qed

lemma generate_key_pair_ready:
  assumes "key_dir_ready self w"
  shows "generate_key_pair e self n em w =
    (Ok (ssh_dir self @ [''id_rsa_'' @ py_format e n @ ''.pub'']),
     w\<lparr>fs := (fs w)
          (ssh_dir self @ [''id_rsa_'' @ py_format e n] \<mapsto>
             File (private_bytes e (RSAPrivateKey 65537 4096 (drawn w)) PEM PKCS8 NoEncryption) o600,
           ssh_dir self @ [''id_rsa_'' @ py_format e n @ ''.pub''] \<mapsto>
             File (public_bytes e (RSAPublicKey (RSAPrivateKey 65537 4096 (drawn w))) OpenSSH PublicOpenSSH) o644),
        drawn := Suc (drawn w)\<rparr>)"
proof -
  let ?k = "RSAPrivateKey 65537 4096 (drawn w)"
  let ?priv = "ssh_dir self @ [''id_rsa_'' @ py_format e n]"
  let ?pub = "ssh_dir self @ [''id_rsa_'' @ py_format e n @ ''.pub'']"
  let ?w1 = "w\<lparr>drawn := Suc (drawn w)\<rparr>"
  let ?w2 = "?w1\<lparr>fs := (fs ?w1)(?priv \<mapsto> File (private_bytes e ?k PEM PKCS8 NoEncryption) o600)\<rparr>"
  have r1: "key_dir_ready self ?w1" using assms by simp
  have r2: "key_dir_ready self ?w2" using ready_put_file [OF r1] .
  have unfold: "generate_key_pair e self n em w =
     and_then (and_then (write_file ?priv (private_bytes e ?k PEM PKCS8 NoEncryption) ?w1)
                 (\<lambda>u. chmod ?priv o600)) (\<lambda>u w3.
     and_then (and_then (write_file ?pub (public_bytes e (public_key ?k) OpenSSH PublicOpenSSH) w3)
                 (\<lambda>u. chmod ?pub o644)) (\<lambda>u. lift (Ok ?pub)))"
    by (simp add: generate_key_pair_def generate_private_key_def joinpath_def and_then_def
             split: prod.splits result.splits)
  have "generate_key_pair e self n em w =
      (Ok ?pub, ?w2\<lparr>fs := (fs ?w2)(?pub \<mapsto> File (public_bytes e (public_key ?k) OpenSSH PublicOpenSSH) o644)\<rparr>)"
    unfolding unfold store_file [OF r1] and_then_Ok store_file [OF r2] lift_apply ..
  then show ?thesis
    by (simp add: public_key_def)
qed

lemma getitem_field:
  "record_field k a = Some v \<Longrightarrow> py_getitem a k = Ok v"
  by (cases a) simp_all

lemma getitem_no_field:
  "is_record a \<Longrightarrow> record_field k a = None \<Longrightarrow> py_getitem a k = Raise (KeyError k)"
  by (cases a) (simp_all add: is_record_def)

lemma str_in_record:
  "is_record a \<Longrightarrow> str_in k a = Ok (record_field k a \<noteq> None)"
  by (cases a) (auto simp: is_record_def map_of_eq_None_iff)

lemma field_is_record: "record_field k a = Some v \<Longrightarrow> is_record a"
  by (cases a) (simp_all add: is_record_def)

lemma host_entry_github: "host_entry n = github_stanza n"
  by (simp add: host_entry_def github_stanza_def)

lemma config_lines_named:
  "\<forall>a\<in>set accounts. record_field ''name'' a \<noteq> None \<Longrightarrow>
   config_lines e accounts = Ok (map (\<lambda>a. github_stanza (name_text e a)) accounts)"
proof (induction accounts)
  case Nil
  then show ?case by simp
next
  case (Cons a accounts)
  from Cons.prems obtain v where v: "record_field ''name'' a = Some v"
    by auto
  have rest: "config_lines e accounts = Ok (map (\<lambda>a. github_stanza (name_text e a)) accounts)"
    using Cons by simp
  show ?case
    by (simp add: getitem_field [OF v] rest name_text_def v host_entry_github)
qed

lemma put_file:
  assumes "is_dir (butlast p) w" and "\<not> is_dir p w"
  shows "and_then (write_file p c w) (\<lambda>u. chmod p m) = (Ok (), w\<lparr>fs := (fs w)(p \<mapsto> File c m)\<rparr>)"
  using assms
  by (auto simp: write_file_def chmod_def and_then_def is_dir_def
           split: option.splits node.splits)


lemma init_result:
  assumes "is_dir (home e) w \<or> exists (home e @ [''.ssh'']) w"
  shows "init e w =
    (Ok \<lparr>ssh_dir = home e @ [''.ssh''], config_file = home e @ [''.ssh'', ''config'']\<rparr>,
     w\<lparr>fs := (fs w)(home e @ [''.ssh''] \<mapsto>
        (case fs w (home e @ [''.ssh'']) of
           None \<Rightarrow> Dir o700
         | Some (Dir m) \<Rightarrow> Dir o700
         | Some (File c m) \<Rightarrow> File c o700))\<rparr>)"
  using assms
  by (auto simp: init_def ensure_ssh_directory_def exists_def mkdir_def chmod_def joinpath_def
           split: option.splits node.splits)


section \<open>The first loop on a list of records\<close>

lemma all_in_record:
  "is_record a \<Longrightarrow> all_in [''name'', ''email''] a = Ok (has_required_fields a)"
  by (cases "record_field ''name'' a"; cases "record_field ''email'' a")
     (simp_all add: str_in_record has_required_fields_def)

lemma fs_print [simp]: "fs (print s w) = fs w"
  by (simp add: print_def)

lemma drawn_print [simp]: "drawn (print s w) = drawn w"
  by (simp add: print_def)

lemma stdout_print [simp]: "stdout (print s w) = stdout w @ [s]"
  by (simp add: print_def)

lemma read_back:
  "fs w p = Some (File c m) \<Longrightarrow> read_file p w = (Ok c, w)"
  by (simp add: read_file_def)

lemma process_account_skipped:
  assumes "is_record a" and "\<not> has_required_fields a"
  shows "process_account e self a w = (Ok (), account_effect e self a w)"
  using assms
  by (simp add: process_account_def all_in_record account_effect_def skipped_message_def
        print_def del: all_in.simps)

lemma process_account_complete:
  assumes ready: "key_dir_ready self w" and full: "has_required_fields a"
  shows "process_account e self a w = (Ok (), account_effect e self a w)"
proof -
  from full obtain n em where n: "record_field ''name'' a = Some n"
    and em: "record_field ''email'' a = Some em"
    by (auto simp: has_required_fields_def)
  have rec: "is_record a"
    using n by (rule field_is_record)
  let ?w1 = "print (nl @ ''Processing account: '' @ py_format e n) w"
  have ready1: "key_dir_ready self ?w1"
    using ready by simp
  let ?k = "RSAPrivateKey 65537 4096 (drawn w)"
  let ?priv = "ssh_dir self @ [''id_rsa_'' @ py_format e n]"
  let ?pub = "ssh_dir self @ [''id_rsa_'' @ py_format e n @ ''.pub'']"
  let ?shown = "public_bytes e (RSAPublicKey ?k) OpenSSH PublicOpenSSH"
  let ?w2 = "?w1\<lparr>fs := (fs ?w1)
          (?priv \<mapsto> File (private_bytes e ?k PEM PKCS8 NoEncryption) o600,
           ?pub \<mapsto> File ?shown o644),
        drawn := Suc (drawn ?w1)\<rparr>"
  let ?w4 = "print (nl @ ''Add this public key to your GitHub account:'')
               (print (''Generated SSH key pair for '' @ py_format e n) ?w2)"
  have gen: "generate_key_pair e self n em ?w1 = (Ok ?pub, ?w2)"
    using generate_key_pair_ready [OF ready1, of e n em] by simp
  have reread: "read_file ?pub ?w4 = (Ok ?shown, ?w4)"
    by (rule read_back [where m = o644]) simp
  have "process_account e self a w = (Ok (), print (strip ?shown) ?w4)"
    unfolding process_account_def all_in_record [OF rec] getitem_field [OF n]
      getitem_field [OF em] lift_apply and_then_Ok gen reread
    using full by simp
  also have "print (strip ?shown) ?w4 = account_effect e self a w"
    using full
    by (simp add: account_effect_def private_key_path_def public_key_path_def name_text_def n
          print_def Let_def)
  finally show ?thesis .
qed

lemma process_account_record:
  assumes "key_dir_ready self w" and "is_record a"
  shows "process_account e self a w = (Ok (), account_effect e self a w)"
  using assms process_account_skipped process_account_complete by (cases "has_required_fields a") auto

lemma ready_account_effect:
  "key_dir_ready self w \<Longrightarrow> key_dir_ready self (account_effect e self a w)"
  by (auto simp: account_effect_def key_dir_ready_def is_dir_def joinpath_def
        private_key_path_def public_key_path_def Let_def split: option.splits node.splits)

lemma process_each_records:
  assumes "key_dir_ready self w" and "\<forall>a\<in>set items. is_record a"
  shows "process_each e self items w = (Ok (), accounts_effect e self items w)"
  using assms
proof (induction items arbitrary: w)
  case Nil
  then show ?case by (simp add: accounts_effect_def)
next
  case (Cons a items)
  have step: "process_account e self a w = (Ok (), account_effect e self a w)"
    using Cons.prems by (simp add: process_account_record)
  have "process_each e self items (account_effect e self a w)
          = (Ok (), accounts_effect e self items (account_effect e self a w))"
    using Cons.prems by (intro Cons.IH ready_account_effect) auto
  then show ?case
    by (simp add: step accounts_effect_def)
qed









section \<open>The run on a list of accounts\<close>

lemma config_lines_missing:
  "\<forall>a\<in>set items. is_record a \<Longrightarrow> \<exists>a\<in>set items. record_field ''name'' a = None \<Longrightarrow>
   config_lines e items = Raise (KeyError ''name'')"
proof (induction items)
  case Nil
  then show ?case by simp
next
  case (Cons a items)
  have rec: "is_record a"
    using Cons.prems by simp
  show ?case
  proof (cases "record_field ''name'' a")
    case None
    then show ?thesis
      by (simp add: getitem_no_field [OF rec])
  next
    case (Some v)
    then have "\<exists>a\<in>set items. record_field ''name'' a = None"
      using Cons.prems by auto
    then have "config_lines e items = Raise (KeyError ''name'')"
      using Cons by simp
    then show ?thesis
      by (simp add: getitem_field [OF Some])
  qed
qed


lemma accounts_section:
  assumes "record_field ''accounts'' config = Some accounts"
  shows "str_in ''accounts'' config = Ok True"
    and "py_getitem config ''accounts'' = Ok accounts"
  using assms field_is_record [OF assms]
  by (simp_all add: str_in_record getitem_field)

lemma process_accounts_list:
  assumes src: "safe_load_file e config_path = Loaded config"
    and accts: "record_field ''accounts'' config = Some (YSeq items)"
  shows "process_accounts e self config_path w =
     and_then (process_each e self items w) (\<lambda>u w.
     and_then (update_ssh_config e self (YSeq items) w) (\<lambda>u w.
     print_urls e items
       (print (nl @ ''To use different GitHub accounts, use these URLs for your repositories:'')
          (print (nl @ ''SSH config has been updated successfully!'') w))))"
  by (simp add: process_accounts_def src accounts_section [OF accts])

lemma update_ssh_config_missing:
  assumes "\<forall>a\<in>set items. is_record a" and "\<exists>a\<in>set items. record_field ''name'' a = None"
  shows "update_ssh_config e self (YSeq items) w = (Raise (KeyError ''name''), w)"
  by (simp add: update_ssh_config_def config_lines_missing [OF assms])


lemma init_sample:
  "init (sample_env src) fresh_world =
     (Ok sample_manager,
      fresh_world\<lparr>fs := (fs fresh_world)([''home'', ''dev'', ''.ssh''] \<mapsto> Dir o700)\<rparr>)"
proof -
  have "is_dir (home (sample_env src)) fresh_world \<or>
        exists (home (sample_env src) @ [''.ssh'']) fresh_world"
    by (simp add: sample_env_def fresh_world_def is_dir_def)
  from init_result [OF this] show ?thesis
    by (simp add: sample_env_def fresh_world_def sample_manager_def)
qed

lemma ready_after_init:
  "key_dir_ready sample_manager
     (fresh_world\<lparr>fs := (fs fresh_world)([''home'', ''dev'', ''.ssh''] \<mapsto> Dir o700)\<rparr>)"
  by (simp add: key_dir_ready_def is_dir_def joinpath_def sample_manager_def fresh_world_def)




section \<open>Where the run can end with an exit\<close>























section \<open>Two runs compared\<close>

lemma keeps_refl [simp]: "keeps a a"
  by (simp add: keeps_def)













lemma rel_result_refl [simp]: "rel_result (=) r r"
  by (simp add: result.rel_eq)























section \<open>The configuration file\<close>

text \<open>
  C1, as stated, fails: for the accounts \<open>work\<close> and \<open>personal\<close> the file that
  \<open>update_ssh_config\<close> writes is not the two stanzas of the template
  \<open>Host service.com-{name}\<close>; the program names the host \<open>github.com\<close> and puts an
  empty line before each stanza.
\<close>

theorem update_ssh_config_not_service_template:
  "fs (snd (update_ssh_config (sample_env FileNotFoundError) sample_manager (YSeq two_accounts)
              sample_world))
     (config_file sample_manager)
   \<noteq> Some (File (spec_stanza ''work'' @ spec_stanza ''personal'') o600)"
  by (simp add: two_accounts_def sample_manager_def sample_world_def is_dir_def py_format_def
        update_ssh_config_def write_file_def chmod_def host_entry_def spec_stanza_def nl_def)

text \<open>
  C1, amended: for every list of account records that each have a \<open>name\<close> field, and a
  configuration path that can be written, \<open>update_ssh_config\<close> leaves as the content of the
  configuration file the concatenation, in list order, of one stanza per account of the form
  empty line, \<open>Host github.com-{name}\<close>, \<open>HostName github.com\<close>, \<open>User git\<close>,
  \<open>IdentityFile ~/.ssh/id_rsa_{name}\<close>, \<open>IdentitiesOnly yes\<close>, and nothing else,
  whatever the file held before, and sets its mode to 0600; nothing else in the world
  changes.
\<close>

theorem update_ssh_config_writes_github_stanzas:
  assumes names: "\<forall>a\<in>set accounts. record_field ''name'' a \<noteq> None"
    and parent: "is_dir (butlast (config_file self)) w"
    and target: "\<not> is_dir (config_file self) w"
  shows "update_ssh_config e self (YSeq accounts) w =
    (Ok (), w\<lparr>fs := (fs w)(config_file self \<mapsto>
        File (concat (map (\<lambda>a. github_stanza (name_text e a)) accounts)) o600)\<rparr>)"
proof -
  have "update_ssh_config e self (YSeq accounts) w =
      and_then (write_file (config_file self)
                  (concat (map (\<lambda>a. github_stanza (name_text e a)) accounts)) w)
               (\<lambda>u. chmod (config_file self) o600)"
    by (simp add: update_ssh_config_def config_lines_named [OF names])
  then show ?thesis
    by (simp only: put_file [OF parent target])
qed

theorem update_ssh_config_writes_github_stanzas_witness:
  "list_all (\<lambda>a. record_field ''name'' a \<noteq> None) two_accounts \<and>
   is_dir (butlast (config_file sample_manager)) sample_world \<and>
   \<not> is_dir (config_file sample_manager) sample_world \<and>
   update_ssh_config (sample_env FileNotFoundError) sample_manager (YSeq two_accounts)
       sample_world
     = (Ok (),
        sample_world\<lparr>fs := (fs sample_world)([''home'', ''dev'', ''.ssh'', ''config''] \<mapsto>
           File (concat (map (\<lambda>l. l @ nl)
                   [[],
                    ''Host github.com-work'',
                    ''    HostName github.com'',
                    ''    User git'',
                    ''    IdentityFile ~/.ssh/id_rsa_work'',
                    ''    IdentitiesOnly yes'',
                    [],
                    ''Host github.com-personal'',
                    ''    HostName github.com'',
                    ''    User git'',
                    ''    IdentityFile ~/.ssh/id_rsa_personal'',
                    ''    IdentitiesOnly yes'']))
                384)\<rparr>)"
proof -
  have names: "\<forall>a\<in>set two_accounts. record_field ''name'' a \<noteq> None"
    by (simp add: two_accounts_def)
  have parent: "is_dir (butlast (config_file sample_manager)) sample_world"
    by (simp add: sample_manager_def sample_world_def is_dir_def)
  have target: "\<not> is_dir (config_file sample_manager) sample_world"
    by (simp add: sample_manager_def sample_world_def is_dir_def)
  show ?thesis
    using names parent target
      update_ssh_config_writes_github_stanzas [OF names parent target,
        of "sample_env FileNotFoundError"]
    by (simp add: two_accounts_def sample_manager_def name_text_def py_format_def
          github_stanza_def o600_def)
qed

section \<open>Key generation\<close>





section \<open>A mapping without an accounts section\<close>



section \<open>Exit statuses\<close>




section \<open>Records without a required field\<close>





text \<open>
  C5 does not hold of the code when the missing field is \<open>name\<close>. On the accounts
  \<open>[{name: work, email: me@work.example}, {email: other@home.example}]\<close> the first loop
  logs and skips the second record and generates the keys of the first, as the claim
  says; but \<open>update_ssh_config\<close> is given the unfiltered list, so the run ends with an
  uncaught \<open>KeyError\<close> and the configuration file is never written.
\<close>

theorem nameless_record_aborts_rewrite:
  "case main (sample_env (Loaded nameless_config)) fresh_world of (res, w') \<Rightarrow>
     res = Raise (KeyError ''name'') \<and>
     fs w' [''home'', ''dev'', ''.ssh'', ''id_rsa_work''] = Some (File ''PRIVATE KEY '' o600) \<and>
     fs w' [''home'', ''dev'', ''.ssh'', ''id_rsa_work.pub'']
       = Some (File (''ssh-rsa AAAA'' @ nl) o644) \<and>
     fs w' [''home'', ''dev'', ''.ssh'', ''config''] = None"
proof -
  let ?items = "[work_account, YMap [(YStr ''email'', YStr ''other@home.example'')]]"
  let ?w0 = "fresh_world\<lparr>fs := (fs fresh_world)([''home'', ''dev'', ''.ssh''] \<mapsto> Dir o700)\<rparr>"
  have src: "safe_load_file (sample_env (Loaded nameless_config)) ''config.yaml''
               = Loaded nameless_config"
    by (simp add: sample_env_def)
  have accts: "record_field ''accounts'' nameless_config = Some (YSeq ?items)"
    by (simp add: nameless_config_def)
  have records: "\<forall>a\<in>set ?items. is_record a"
    by (simp add: is_record_def work_account_def)
  have missing: "\<exists>a\<in>set ?items. record_field ''name'' a = None"
    by simp
  have run: "main (sample_env (Loaded nameless_config)) fresh_world =
      (Raise (KeyError ''name''),
       accounts_effect (sample_env (Loaded nameless_config)) sample_manager ?items ?w0)"
    by (simp add: main_def init_sample process_accounts_list [OF src accts]
          process_each_records [OF ready_after_init records]
          update_ssh_config_missing [OF records missing] del: process_each.simps)
  show ?thesis
    unfolding run
    by (simp add: accounts_effect_def account_effect_def has_required_fields_def
          work_account_def private_key_path_def public_key_path_def name_text_def
          py_format_def sample_manager_def sample_env_def fresh_world_def Let_def)
qed

section \<open>Running the tool twice\<close>



section \<open>A parsed value that is no container\<close>

text \<open>
  C10, as stated, fails: a file holding the bare scalar \<open>hello\<close> parses to a string,
  which is not a mapping, and on a string \<open>in\<close> is the substring test. It does not
  raise; the program prints the diagnostic and leaves with \<open>sys.exit(1)\<close>.
\<close>

theorem bare_string_exits_with_diagnostic:
  "\<not> is_record (YStr ''hello'') \<and>
   process_accounts (sample_env (Loaded (YStr ''hello''))) sample_manager ''config.yaml''
       sample_world
     = (SysExit 1, sample_world\<lparr>stdout := [no_accounts_message]\<rparr>)"
  by (simp add: is_record_def process_accounts_def step_defs sample_defs)

text \<open>
  C10, amended: for every input file that parses to \<open>None\<close>, a boolean, a number or
  another scalar that is not a string, the membership test for the \<open>accounts\<close> section
  raises a \<open>TypeError\<close> that nothing catches: \<open>process_accounts\<close> ends with that
  exception, not with \<open>sys.exit(1)\<close>, and has printed nothing and touched no file.
\<close>

theorem no_container_raises_type_error:
  assumes "safe_load_file e config_path = Loaded v" and "no_container v"
  shows "process_accounts e self config_path w = (Raise TypeError, w)"
  using assms by (simp add: process_accounts_def step_defs str_in_no_container)

theorem no_container_raises_type_error_witness:
  "safe_load_file (sample_env (Loaded YNull)) ''config.yaml'' = Loaded YNull \<and>
   no_container YNull \<and>
   process_accounts (sample_env (Loaded YNull)) sample_manager ''config.yaml'' sample_world
     = (Raise TypeError, sample_world)"
proof -
  have src: "safe_load_file (sample_env (Loaded YNull)) ''config.yaml'' = Loaded YNull"
    by (simp add: sample_env_def)
  have scalar: "no_container YNull"
    by simp
  show ?thesis
    using src scalar no_container_raises_type_error [OF src scalar] by simp
qed

end
